theory Spec2Isabelle
  imports Complex_Main
begin

section \<open>Python failures and sequence indexing\<close>

text \<open>
  Every exception the modelled methods can raise is a value of \<open>error\<close>; a method that
  may raise returns \<open>error + 'a\<close>, with \<open>Inl\<close> for the exception.
\<close>

datatype error = IndexError | KeyError | AttributeError | TypeError | ValueError

definition ebind :: "error + 'a \<Rightarrow> ('a \<Rightarrow> error + 'b) \<Rightarrow> error + 'b" where
  "ebind m f = (case m of Inl e \<Rightarrow> Inl e | Inr x \<Rightarrow> f x)"

text \<open>
  Python sequences accept an index \<open>i\<close> with \<open>-n \<le> i < n\<close>; a negative index counts
  from the end, anything else raises IndexError.
\<close>

definition py_index :: "nat \<Rightarrow> int \<Rightarrow> nat option" where
  "py_index n i =
     (if 0 \<le> i \<and> i < int n then Some (nat i)
      else if i < 0 \<and> - int n \<le> i then Some (nat (int n + i))
      else None)"

definition getitem :: "'a list \<Rightarrow> int \<Rightarrow> error + 'a" where
  "getitem xs i = (case py_index (length xs) i of None \<Rightarrow> Inl IndexError | Some j \<Rightarrow> Inr (xs ! j))"

definition setitem :: "'a list \<Rightarrow> int \<Rightarrow> 'a \<Rightarrow> error + 'a list" where
  "setitem xs i v = (case py_index (length xs) i of None \<Rightarrow> Inl IndexError | Some j \<Rightarrow> Inr (xs[j := v]))"

text \<open>\<open>list.pop(0)\<close> and \<open>list.pop()\<close>: both raise IndexError on the empty list.\<close>

definition pop_first :: "'a list \<Rightarrow> error + ('a \<times> 'a list)" where
  "pop_first xs = (case xs of [] \<Rightarrow> Inl IndexError | x # rest \<Rightarrow> Inr (x, rest))"

definition pop_last :: "'a list \<Rightarrow> error + ('a \<times> 'a list)" where
  "pop_last xs = (if xs = [] then Inl IndexError else Inr (last xs, butlast xs))"

section \<open>ObjectHistory (GuiFunctions.py)\<close>

text \<open>
  The undo history: both stacks are Python lists whose top is the last element. An entry
  is the pair (action name, data), the data being the dictionary built by the caller.
\<close>

record 'd ObjectHistory =
  max_undo_states :: int
  position :: int
  undo_stack :: "(string \<times> 'd) list"
  redo_stack :: "(string \<times> 'd) list"

definition ObjectHistory_init :: "int \<Rightarrow> 'd ObjectHistory" where
  "ObjectHistory_init m =
     \<lparr>max_undo_states = m, position = 0, undo_stack = [], redo_stack = []\<rparr>"

definition add_state :: "string \<Rightarrow> 'd \<Rightarrow> 'd ObjectHistory \<Rightarrow> error + 'd ObjectHistory" where
  "add_state action_name data h =
     ebind (if int (length (undo_stack h)) > max_undo_states h + 1
            then ebind (pop_first (undo_stack h)) (\<lambda>(old, rest). Inr rest)
            else Inr (undo_stack h))
       (\<lambda>st. Inr (h\<lparr>undo_stack := st @ [(action_name, data)],
                       position := int (length (st @ [(action_name, data)])) - 1\<rparr>))"

definition history_redo :: "'d ObjectHistory \<Rightarrow> error + ((string \<times> 'd) \<times> 'd ObjectHistory)" where
  "history_redo h =
     ebind (pop_last (redo_stack h))
       (\<lambda>(val, rest). Inr (val, h\<lparr>redo_stack := rest, undo_stack := undo_stack h @ [val]\<rparr>))"

definition history_undo :: "'d ObjectHistory \<Rightarrow> error + ((string \<times> 'd) \<times> 'd ObjectHistory)" where
  "history_undo h =
     ebind (pop_last (undo_stack h))
       (\<lambda>(val, rest). Inr (val, h\<lparr>undo_stack := rest, redo_stack := redo_stack h @ [val]\<rparr>))"

definition can_redo :: "'d ObjectHistory \<Rightarrow> bool" where
  "can_redo h = (length (redo_stack h) > 0)"

definition can_undo :: "'d ObjectHistory \<Rightarrow> bool" where
  "can_undo h = (length (undo_stack h) > 0)"

text \<open>A sequence of \<open>add_state\<close> calls, stopping at the first exception.\<close>

fun add_states :: "(string \<times> 'd) list \<Rightarrow> 'd ObjectHistory \<Rightarrow> error + 'd ObjectHistory" where
  "add_states [] h = Inr h"
| "add_states ((a, d) # rest) h = ebind (add_state a d h) (add_states rest)"

section \<open>ProfilesModel (GuiFunctions.py)\<close>

text \<open>
  A profile is a numpy array, a mutable object that the device, the undo history and the
  redo history may share. Arrays therefore live in a store, from addresses to contents;
  \<open>.copy()\<close> allocates a fresh address. A device holds, for each magnitude, the name of
  the attribute with its profile (\<open>properties_with_profile\<close>) and, under that name, the
  address of the array.
\<close>

type_synonym addr = nat

record device =
  properties_with_profile :: "string \<rightharpoonup> string"
  attrs :: "string \<rightharpoonup> addr"

record QModelIndex =
  row :: int
  column :: int
  has_model :: bool

definition isValid :: "QModelIndex \<Rightarrow> bool" where
  "isValid i = (0 \<le> row i \<and> 0 \<le> column i \<and> has_model i)"

definition lookup :: "error \<Rightarrow> ('k \<rightharpoonup> 'v) \<Rightarrow> 'k \<Rightarrow> error + 'v" where
  "lookup e m k = (case m k of None \<Rightarrow> Inl e | Some v \<Rightarrow> Inr v)"

text \<open>A Python dict keeps insertion order; assigning to a key it has replaces the value in place.\<close>

fun dict_set :: "('k \<times> 'v) list \<Rightarrow> 'k \<Rightarrow> 'v \<Rightarrow> ('k \<times> 'v) list" where
  "dict_set [] k v = [(k, v)]"
| "dict_set ((k', v') # rest) k v = (if k' = k then (k, v) # rest else (k', v') # dict_set rest k v)"

record 'v ProfilesModel =
  magnitude :: string
  non_editable_indices :: "int list"
  elements :: "device list"
  pm_r :: nat
  pm_c :: nat
  history :: "(int \<times> addr) list ObjectHistory"
  arrays :: "addr \<Rightarrow> 'v list"
  next_addr :: addr

text \<open>
  \<open>getattr(self.elements[col], self.elements[col].properties_with_profile[self.magnitude])\<close>:
  the address of the profile array of column \<open>col\<close>.
\<close>

definition profile_array :: "'v ProfilesModel \<Rightarrow> int \<Rightarrow> error + addr" where
  "profile_array m col =
     ebind (getitem (elements m) col) (\<lambda>el.
     ebind (lookup KeyError (properties_with_profile el) (magnitude m)) (\<lambda>profile_property.
     lookup AttributeError (attrs el) profile_property))"

definition profile_values :: "'v ProfilesModel \<Rightarrow> int \<Rightarrow> error + 'v list" where
  "profile_values m col = ebind (profile_array m col) (\<lambda>a. Inr (arrays m a))"

definition copy_array :: "addr \<Rightarrow> 'v ProfilesModel \<Rightarrow> addr \<times> 'v ProfilesModel" where
  "copy_array a m =
     (next_addr m, m\<lparr>arrays := (arrays m)(next_addr m := arrays m a), next_addr := Suc (next_addr m)\<rparr>)"

text \<open>The loop of \<open>ProfilesModel.add_state\<close>: one copy per column, into the dictionary.\<close>

fun collect_columns ::
  "int list \<Rightarrow> (int \<times> addr) list \<Rightarrow> 'v ProfilesModel \<Rightarrow> error + ((int \<times> addr) list \<times> 'v ProfilesModel)" where
  "collect_columns [] data m = Inr (data, m)"
| "collect_columns (col # cols) data m =
     ebind (profile_array m col) (\<lambda>a.
       case copy_array a m of (a', m') \<Rightarrow> collect_columns cols (dict_set data col a') m')"

definition pm_add_state :: "int list \<Rightarrow> string \<Rightarrow> 'v ProfilesModel \<Rightarrow> error + 'v ProfilesModel" where
  "pm_add_state columns action_name m =
     ebind (collect_columns columns [] m) (\<lambda>(data, m').
     ebind (add_state action_name data (history m')) (\<lambda>h. Inr (m'\<lparr>history := h\<rparr>)))"

definition ProfilesModel_init ::
  "nat \<Rightarrow> device list \<Rightarrow> string \<Rightarrow> int \<Rightarrow> (addr \<Rightarrow> 'v list) \<Rightarrow> addr \<Rightarrow> error + 'v ProfilesModel" where
  "ProfilesModel_init n_time elems magn max_states arrs free =
     pm_add_state (map int [0 ..< length elems]) ''initial''
       \<lparr>magnitude = magn, non_editable_indices = [], elements = elems,
        pm_r = n_time, pm_c = length elems, history = ObjectHistory_init max_states,
        arrays = arrs, next_addr = free\<rparr>"

text \<open>
  \<open>ProfilesModel.setData\<close>: the cell is written in place, then the edited column is
  snapshotted. The method returns True on both branches; the model returns the new state.
\<close>

definition pm_setData :: "'v ProfilesModel \<Rightarrow> QModelIndex \<Rightarrow> 'v \<Rightarrow> error + 'v ProfilesModel" where
  "pm_setData m index v =
     (if column index \<notin> set (non_editable_indices m) then
        ebind (profile_array m (column index)) (\<lambda>a.
        ebind (setitem (arrays m a) (row index) v) (\<lambda>arr.
        pm_add_state [column index] '''' (m\<lparr>arrays := (arrays m)(a := arr)\<rparr>)))
      else Inr m)"

text \<open>\<open>ProfilesModel.restore\<close>: each column's profile attribute is set to the stored array.\<close>

fun restore :: "(int \<times> addr) list \<Rightarrow> 'v ProfilesModel \<Rightarrow> error + 'v ProfilesModel" where
  "restore [] m = Inr m"
| "restore ((col, a) # rest) m =
     ebind (getitem (elements m) col) (\<lambda>el.
     ebind (lookup KeyError (properties_with_profile el) (magnitude m)) (\<lambda>profile_property.
     ebind (setitem (elements m) col (el\<lparr>attrs := (attrs el)(profile_property \<mapsto> a)\<rparr>)) (\<lambda>els.
     restore rest (m\<lparr>elements := els\<rparr>))))"

text \<open>
  \<open>ProfilesModel.undo\<close> and \<open>redo\<close>; the print and the layout signals of \<open>update\<close>
  change no state of the model and are left out.
\<close>

definition pm_undo :: "'v ProfilesModel \<Rightarrow> error + 'v ProfilesModel" where
  "pm_undo m =
     (if can_undo (history m) then
        ebind (history_undo (history m)) (\<lambda>((action, data), h). restore data (m\<lparr>history := h\<rparr>))
      else Inr m)"

definition pm_redo :: "'v ProfilesModel \<Rightarrow> error + 'v ProfilesModel" where
  "pm_redo m =
     (if can_redo (history m) then
        ebind (history_redo (history m)) (\<lambda>((action, data), h). restore data (m\<lparr>history := h\<rparr>))
      else Inr m)"

text \<open>
  A smallest ProfilesModel: one device whose profile for magnitude \<open>P\<close> is the attribute
  \<open>P_prof\<close>, the array \<open>[1, 2]\<close> at address 0.
\<close>

definition one_device :: device where
  "one_device = \<lparr>properties_with_profile = [''P'' \<mapsto> ''P_prof''], attrs = [''P_prof'' \<mapsto> 0]\<rparr>"

definition one_profile :: "addr \<Rightarrow> int list" where
  "one_profile = (\<lambda>a. [])(0 := [1, 2])"

section \<open>Text export of a results table (Session/results_model.py)\<close>

text \<open>
  A two-dimensional numpy array: its shape and its rows. \<open>data[t, :]\<close> is row \<open>t\<close>,
  IndexError beyond the first dimension.
\<close>

record 'a ndarray =
  dim0 :: nat
  dim1 :: nat
  cells :: "'a list list"





text \<open>\<open>str\<close> of a Python int.\<close>

fun str_nat :: "nat \<Rightarrow> string" where
  "str_nat n =
     (if n < 10 then [''0123456789'' ! n]
      else str_nat (n div 10) @ [''0123456789'' ! (n mod 10)])"

declare str_nat.simps [simp del]

definition str_int :: "int \<Rightarrow> string" where
  "str_int i = (if i < 0 then ''-'' @ str_nat (nat (- i)) else str_nat (nat i))"



text \<open>
  The results table is the engine's ResultsTable; the model reads these attributes of it.
\<close>

record ('i, 'a) ResultsTable =
  cols_c :: "string list"
  index_c :: "'i list"
  data_c :: "'a ndarray"
  table_r :: nat
  table_c :: nat
  format_string :: string
  table_editable :: bool
  editable_min_idx :: int








section \<open>FileOpenThread and FileSaveThread (Session/file_handler.py)\<close>

text \<open>
  The three signals of a thread. \<open>'p\<close> is the type of the progress value (a float in the
  source, passed through unchanged).
\<close>

datatype 'p signal = progress_signal 'p | progress_text string | done_signal

text \<open>
  What the engine's handler can emit: it is given \<open>progress_text.emit\<close> and
  \<open>progress_signal.emit\<close> only.
\<close>

datatype 'p progress = text_func string | progress_func 'p

fun emit :: "'p progress \<Rightarrow> 'p signal" where
  "emit (text_func s) = progress_text s"
| "emit (progress_func p) = progress_signal p"

text \<open>
  The file name given to a thread: a string, a list of strings, or something else
  (the constructors annotate nothing).
\<close>

datatype fname = name_str string | name_list "string list" | name_other

text \<open>
  The engine, which is not part of these files: \<open>MultiCircuit()\<close>, \<open>Logger()\<close>, the
  logger's \<open>+=\<close>, \<open>os.path.split\<close>, and the two handlers. A handler emits progress events
  and then either raises or returns (\<open>FileOpen.open\<close> the circuit, with the handler's
  logger; \<open>FileSave.save\<close> the logger). \<open>'d\<close> stands for the simulation drivers and
  sessions handed to \<open>FileSave\<close>.
\<close>

record ('p, 'c, 'l, 'd) engine =
  MultiCircuit :: 'c
  Logger :: 'l
  logger_iadd :: "'l \<Rightarrow> 'l \<Rightarrow> 'l"
  path_split :: "string \<Rightarrow> string \<times> string"
  FileOpen_open :: "fname \<Rightarrow> 'p progress list \<times> (error + 'c \<times> 'l)"
  FileSave_save :: "'c \<Rightarrow> fname \<Rightarrow> 'd \<Rightarrow> 'd \<Rightarrow> 'p progress list \<times> (error + 'l)"

record ('c, 'l) FileOpenThread =
  open_file_name :: fname
  open_valid :: bool
  open_logger :: 'l
  open_circuit :: "'c option"
  open_cancel :: bool

record ('c, 'l, 'd) FileSaveThread =
  save_circuit :: 'c
  save_file_name :: fname
  save_valid :: bool
  simulation_drivers :: 'd
  sessions :: 'd
  save_logger :: 'l
  error_msg :: string
  save_cancel :: bool

definition FileOpenThread_init :: "('p, 'c, 'l, 'd) engine \<Rightarrow> fname \<Rightarrow> ('c, 'l) FileOpenThread" where
  "FileOpenThread_init eng f =
     \<lparr>open_file_name = f, open_valid = False, open_logger = Logger eng, open_circuit = None,
      open_cancel = False\<rparr>"

definition FileSaveThread_init ::
  "('p, 'c, 'l, 'd) engine \<Rightarrow> 'c \<Rightarrow> fname \<Rightarrow> 'd \<Rightarrow> 'd \<Rightarrow> ('c, 'l, 'd) FileSaveThread" where
  "FileSaveThread_init eng circ f drivers sess =
     \<lparr>save_circuit = circ, save_file_name = f, save_valid = False, simulation_drivers = drivers,
      sessions = sess, save_logger = Logger eng, error_msg = '''', save_cancel = False\<rparr>"

text \<open>
  The outcome of \<open>run()\<close>: the thread afterwards, the signals emitted in order, and the
  exception that ended the run, if any.
\<close>

record ('t, 'p) outcome =
  thread :: 't
  emitted :: "'p signal list"
  raised :: "error option"

text \<open>
  \<open>FileOpenThread.run\<close>. \<open>self.file_name[0]\<close> raises IndexError on the empty list, and
  \<open>os.path.split\<close> raises TypeError on what is neither a string nor a path.
\<close>

definition open_run ::
  "('p, 'c, 'l, 'd) engine \<Rightarrow> ('c, 'l) FileOpenThread \<Rightarrow> (('c, 'l) FileOpenThread, 'p) outcome" where
  "open_run eng t =
     (let t1 = t\<lparr>open_circuit := Some (MultiCircuit eng)\<rparr>;
          first = (case open_file_name t of
                     name_list fs \<Rightarrow> getitem fs 0
                   | name_str s \<Rightarrow> Inr s
                   | name_other \<Rightarrow> Inl TypeError)
      in case first of
           Inl e \<Rightarrow> \<lparr>thread = t1, emitted = [], raised = Some e\<rparr>
         | Inr f \<Rightarrow>
             (let loading = progress_text (''Loading '' @ snd (path_split eng f) @ ''...'');
                  t2 = t1\<lparr>open_logger := Logger eng\<rparr>
              in case FileOpen_open eng (open_file_name t) of
                   (events, Inl e) \<Rightarrow>
                     \<lparr>thread = t2, emitted = loading # map emit events, raised = Some e\<rparr>
                 | (events, Inr (circ, handler_logger)) \<Rightarrow>
                     \<lparr>thread = t2\<lparr>open_circuit := Some circ,
                                   open_logger := logger_iadd eng (Logger eng) handler_logger,
                                   open_valid := True\<rparr>,
                      emitted = loading # map emit events @ [progress_text ''Done!'', done_signal],
                      raised = None\<rparr>))"

definition open_cancel_call :: "('c, 'l) FileOpenThread \<Rightarrow> ('c, 'l) FileOpenThread" where
  "open_cancel_call t = t\<lparr>open_cancel := True\<rparr>"

text \<open>\<open>FileSaveThread.run\<close>: \<open>os.path.split(self.file_name)\<close> takes the name as it is.\<close>

definition save_run ::
  "('p, 'c, 'l, 'd) engine \<Rightarrow> ('c, 'l, 'd) FileSaveThread \<Rightarrow> (('c, 'l, 'd) FileSaveThread, 'p) outcome" where
  "save_run eng t =
     (case (case save_file_name t of name_str s \<Rightarrow> Inr s | name_list fs \<Rightarrow> Inl TypeError
            | name_other \<Rightarrow> Inl TypeError) of
        Inl e \<Rightarrow> \<lparr>thread = t, emitted = [], raised = Some e\<rparr>
      | Inr f \<Rightarrow>
          (let fn = snd (path_split eng f);
               flushing = progress_text (''Flushing '' @ fn @ '' into '' @ fn @ ''...'');
               t1 = t\<lparr>save_logger := Logger eng\<rparr>
           in case FileSave_save eng (save_circuit t) (save_file_name t) (simulation_drivers t)
                     (sessions t) of
                (events, Inl e) \<Rightarrow>
                  \<lparr>thread = t1, emitted = flushing # map emit events, raised = Some e\<rparr>
              | (events, Inr handler_logger) \<Rightarrow>
                  \<lparr>thread = t1\<lparr>save_logger := handler_logger, save_valid := True\<rparr>,
                   emitted = flushing # map emit events @ [progress_text ''Done!'', done_signal],
                   raised = None\<rparr>))"

definition save_cancel_call :: "('c, 'l, 'd) FileSaveThread \<Rightarrow> ('c, 'l, 'd) FileSaveThread" where
  "save_cancel_call t = t\<lparr>save_cancel := True\<rparr>"

text \<open>
  A small engine to run the threads on: progress values are naturals, a circuit is its
  name, a logger is its list of entries, \<open>+=\<close> appends.
\<close>

definition demo_engine :: "(nat, string, string list, unit) engine" where
  "demo_engine =
     \<lparr>MultiCircuit = ''empty'', Logger = [], logger_iadd = (\<lambda>a b. a @ b),
      path_split = (\<lambda>s. ('''', s)),
      FileOpen_open = (\<lambda>f. ([text_func ''reading'', progress_func 50],
                             Inr (''grid'', [''bus 3 has no name'']))),
      FileSave_save = (\<lambda>c f d s. ([progress_func 100], Inr [''saved'']))\<rparr>"

definition demo_open :: "(string, string list) FileOpenThread" where
  "demo_open = FileOpenThread_init demo_engine (name_str ''grid.gridcal'')"

definition demo_save :: "(string, string list, unit) FileSaveThread" where
  "demo_save = FileSaveThread_init demo_engine ''grid'' (name_str ''out.gridcal'') () ()"

definition empty_list_open :: "(string, string list) FileOpenThread" where
  "empty_list_open = FileOpenThread_init demo_engine (name_list [])"

section \<open>PandasModel and ResultsModel: counts and display (GuiFunctions.py, results_model.py)\<close>

text \<open>
  A cell of the data array, as \<open>data()\<close> tells them apart: a \<open>str\<close>, a \<open>complex\<close> with
  its real and imaginary parts, or anything else (a number). The numbers themselves stay
  abstract: \<open>ne_zero x\<close> is the test \<open>x != 0\<close>, and the two format functions are
  \<open>__format__\<close> with a format string, which may raise.
\<close>

datatype 'n cell = cell_str string | cell_complex 'n 'n | cell_num 'n

record 'n numeric =
  ne_zero :: "'n \<Rightarrow> bool"
  format_num :: "'n \<Rightarrow> string \<Rightarrow> error + string"
  format_complex :: "'n \<Rightarrow> 'n \<Rightarrow> string \<Rightarrow> error + string"

datatype role = DisplayRole | EditRole | ToolTipRole | BackgroundRole

text \<open>\<open>a[i, j]\<close> and \<open>a[i, j] = v\<close> on a two-dimensional array.\<close>

definition getitem2 :: "'a ndarray \<Rightarrow> int \<Rightarrow> int \<Rightarrow> error + 'a" where
  "getitem2 d i j =
     (case (py_index (dim0 d) i, py_index (dim1 d) j) of
        (Some i', Some j') \<Rightarrow> ebind (getitem (cells d) (int i')) (\<lambda>rw. getitem rw (int j'))
      | _ \<Rightarrow> Inl IndexError)"

definition setitem2 :: "'a ndarray \<Rightarrow> int \<Rightarrow> int \<Rightarrow> 'a \<Rightarrow> error + 'a ndarray" where
  "setitem2 d i j v =
     (case (py_index (dim0 d) i, py_index (dim1 d) j) of
        (Some i', Some j') \<Rightarrow>
          ebind (getitem (cells d) (int i')) (\<lambda>rw.
          ebind (setitem rw (int j') v) (\<lambda>rw'.
          Inr (d\<lparr>cells := (cells d)[i' := rw']\<rparr>)))
      | _ \<Rightarrow> Inl IndexError)"

text \<open>
  A pandas data frame: its values (whose shape is the frame's row and column counts), its
  columns and its index values.
\<close>

record ('i, 'a) DataFrame =
  df_values :: "'a ndarray"
  df_columns :: "string list"
  df_index :: "'i list"

record ('i, 'n) PandasModel =
  pd_data_c :: "'n cell ndarray"
  pd_cols_c :: "string list"
  pd_index_c :: "'i list"
  pd_editable :: bool
  pd_editable_min_idx :: int
  pd_r :: nat
  pd_c :: nat
  isDate :: bool
  pd_format_string :: string

text \<open>
  The constructor; \<open>is_datetime\<close> is \<open>isinstance(x, np.datetime64)\<close> on an index value.
  \<open>self.index_c[0]\<close> raises IndexError on an empty index.
\<close>

definition PandasModel_init ::
  "('i \<Rightarrow> bool) \<Rightarrow> ('i, 'n cell) DataFrame \<Rightarrow> bool \<Rightarrow> int \<Rightarrow> int \<Rightarrow> error + ('i, 'n) PandasModel" where
  "PandasModel_init is_datetime df editable min_idx decimals =
     ebind (if dim0 (df_values df) > 0 \<and> dim1 (df_values df) > 0
            then ebind (getitem (df_index df) 0) (\<lambda>x. Inr (is_datetime x))
            else Inr False) (\<lambda>is_date.
     Inr \<lparr>pd_data_c = df_values df, pd_cols_c = df_columns df, pd_index_c = df_index df,
          pd_editable = editable, pd_editable_min_idx = min_idx,
          pd_r = dim0 (df_values df), pd_c = dim1 (df_values df), isDate = is_date,
          pd_format_string = ''.'' @ str_int decimals @ ''f''\<rparr>)"

definition pd_rowCount :: "('i, 'n) PandasModel \<Rightarrow> nat" where
  "pd_rowCount m = pd_r m"

definition pd_columnCount :: "('i, 'n) PandasModel \<Rightarrow> nat" where
  "pd_columnCount m = pd_c m"

text \<open>The display of a cell, shared by \<open>PandasModel.data\<close> and \<open>ResultsModel.data\<close>.\<close>

definition display :: "'n numeric \<Rightarrow> string \<Rightarrow> 'n cell \<Rightarrow> error + string option" where
  "display num fmt val =
     (case val of
        cell_str s \<Rightarrow> Inr (Some s)
      | cell_complex re im \<Rightarrow>
          (if ne_zero num re \<or> ne_zero num im
           then ebind (format_complex num re im fmt) (\<lambda>s. Inr (Some s))
           else Inr (Some ''0''))
      | cell_num x \<Rightarrow>
          (if ne_zero num x
           then ebind (format_num num x fmt) (\<lambda>s. Inr (Some s))
           else Inr (Some ''0'')))"

definition pd_data ::
  "'n numeric \<Rightarrow> ('i, 'n) PandasModel \<Rightarrow> QModelIndex \<Rightarrow> role \<Rightarrow> error + string option" where
  "pd_data num m index rl =
     (if isValid index \<and> rl = DisplayRole then
        ebind (getitem2 (pd_data_c m) (row index) (column index)) (display num (pd_format_string m))
      else Inr None)"

definition pd_setData ::
  "('i, 'n) PandasModel \<Rightarrow> QModelIndex \<Rightarrow> 'n cell \<Rightarrow> error + ('i, 'n) PandasModel" where
  "pd_setData m index v =
     ebind (setitem2 (pd_data_c m) (row index) (column index) v) (\<lambda>d. Inr (m\<lparr>pd_data_c := d\<rparr>))"

text \<open>\<open>ResultsModel\<close>: the value is read before the role is looked at.\<close>

definition rm_rowCount :: "('i, 'a) ResultsTable \<Rightarrow> nat" where
  "rm_rowCount table = table_r table"

definition rm_columnCount :: "('i, 'a) ResultsTable \<Rightarrow> nat" where
  "rm_columnCount table = table_c table"

definition rm_data ::
  "'n numeric \<Rightarrow> ('i, 'n cell) ResultsTable \<Rightarrow> QModelIndex \<Rightarrow> role \<Rightarrow> error + string option" where
  "rm_data num table index rl =
     (if isValid index then
        ebind (getitem2 (data_c table) (row index) (column index)) (\<lambda>val.
          if rl = DisplayRole then display num (format_string table) val
          else if rl = BackgroundRole then Inr None
          else Inr None)
      else Inr None)"

section \<open>ObjectsModel (GuiFunctions.py)\<close>

text \<open>
  The type recorded for an attribute in \<open>editable_headers\<close>, as far as the model
  tells types apart.
\<close>

datatype tpe = t_bool | t_str | t_float | t_complex | t_None | t_BranchTemplate | t_BranchType
  | t_Bus | t_enum | t_device string | t_other

text \<open>
  A device object: its attributes by name, and its graphic object, if it has one, as the
  number of \<open>update_symbol()\<close> calls it received.
\<close>

record 'v gc_object =
  obj_attrs :: "string \<rightharpoonup> 'v"
  graphic_obj :: "nat option"

text \<open>One entry of \<open>editable_headers\<close>: units, type and definition of an attribute.\<close>

record GCProp =
  prop_units :: string
  prop_tpe :: tpe
  prop_definition :: string

record 'v ObjectsModel =
  attributes :: "string list"
  attribute_types :: "tpe list"
  units :: "string list"
  tips :: "string list"
  objects :: "'v gc_object list"
  om_editable :: bool
  non_editable_attributes :: "string list"
  check_unique :: "string list"
  om_r :: nat
  om_c :: nat
  transposed :: bool
  dictionary_of_lists :: "string list"

text \<open>
  \<open>set_delegates\<close>, for what it does to the model: the first attribute of type None is
  appended to an empty \<open>non_editable_attributes\<close>, and a device type is looked up in
  \<open>dictionary_of_lists\<close> (here its keys), KeyError when it is missing. The delegates
  themselves are installed in the view.
\<close>

fun set_delegates :: "string list \<Rightarrow> (string \<times> tpe) list \<Rightarrow> string list \<Rightarrow> error + string list" where
  "set_delegates keys [] non_editable = Inr non_editable"
| "set_delegates keys ((attr, t) # rest) non_editable =
     (case t of
        t_None \<Rightarrow>
          set_delegates keys rest
            (if length non_editable = 0 then non_editable @ [attr] else non_editable)
      | t_device k \<Rightarrow>
          (if k \<in> set keys then set_delegates keys rest non_editable else Inl KeyError)
      | _ \<Rightarrow> set_delegates keys rest non_editable)"

text \<open>
  The constructor. \<open>editable_headers\<close> is a dictionary, given by its items in order (the
  keys are the attributes).
\<close>

definition ObjectsModel_init ::
  "'v gc_object list \<Rightarrow> (string \<times> GCProp) list \<Rightarrow> bool \<Rightarrow> string list \<Rightarrow> bool \<Rightarrow> string list \<Rightarrow>
   string list \<Rightarrow> error + 'v ObjectsModel" where
  "ObjectsModel_init objs editable_headers editable non_editable is_transposed unique keys =
     ebind (set_delegates keys (map (\<lambda>(a, p). (a, prop_tpe p)) editable_headers) non_editable)
       (\<lambda>non_editable'.
     Inr \<lparr>attributes = map fst editable_headers,
          attribute_types = map (\<lambda>(a, p). prop_tpe p) editable_headers,
          units = map (\<lambda>(a, p). prop_units p) editable_headers,
          tips = map (\<lambda>(a, p). prop_definition p) editable_headers,
          objects = objs, om_editable = editable, non_editable_attributes = non_editable',
          check_unique = unique, om_r = length objs, om_c = length editable_headers,
          transposed = is_transposed, dictionary_of_lists = keys\<rparr>)"

definition om_rowCount :: "'v ObjectsModel \<Rightarrow> nat" where
  "om_rowCount m = (if transposed m then om_c m else om_r m)"

definition om_columnCount :: "'v ObjectsModel \<Rightarrow> nat" where
  "om_columnCount m = (if transposed m then om_r m else om_c m)"

text \<open>
  \<open>attr_taken\<close>: the first object whose attribute equals the value decides; an object
  without the attribute raises AttributeError. Values are compared by equality.
\<close>

fun attr_taken :: "'v gc_object list \<Rightarrow> string \<Rightarrow> 'v \<Rightarrow> error + bool" where
  "attr_taken [] attr val = Inr False"
| "attr_taken (obj # rest) attr val =
     ebind (lookup AttributeError (obj_attrs obj) attr) (\<lambda>x.
       if val = x then Inr True else attr_taken rest attr val)"

text \<open>
  \<open>ObjectsModel.setData\<close>. \<open>branch_type\<close> is the enumeration's constructor
  \<open>BranchType(value)\<close>, which raises on a value that is no member. An exception may come
  after the attribute has been set (\<open>graphic_obj.update_symbol()\<close> on an object without a
  graphic object), so the result is the model afterwards together with the exception
  raised, if any.
\<close>

definition set_object :: "'v ObjectsModel \<Rightarrow> nat \<Rightarrow> 'v gc_object \<Rightarrow> 'v ObjectsModel" where
  "set_object m i obj = m\<lparr>objects := (objects m)[i := obj]\<rparr>"

definition om_setData ::
  "('v \<Rightarrow> error + 'v) \<Rightarrow> 'v ObjectsModel \<Rightarrow> QModelIndex \<Rightarrow> 'v \<Rightarrow> 'v ObjectsModel \<times> error option" where
  "om_setData branch_type m index v =
     (let obj_idx = (if transposed m then column index else row index);
          attr_idx = (if transposed m then row index else column index)
      in case getitem (attribute_types m) attr_idx of
           Inl e \<Rightarrow> (m, Some e)
         | Inr t \<Rightarrow>
        (case getitem (attributes m) attr_idx of
           Inl e \<Rightarrow> (m, Some e)
         | Inr attr \<Rightarrow>
        (case (if attr \<in> set (check_unique m) then attr_taken (objects m) attr v else Inr False) of
           Inl e \<Rightarrow> (m, Some e)
         | Inr taken \<Rightarrow>
             if \<not> taken then
               if attr \<notin> set (non_editable_attributes m) then
                 (case py_index (length (objects m)) obj_idx of
                    None \<Rightarrow> (m, Some IndexError)
                  | Some i \<Rightarrow>
                      let obj = objects m ! i in
                      if t = t_BranchType then
                        (case branch_type v of
                           Inl e \<Rightarrow> (m, Some e)
                         | Inr bt \<Rightarrow>
                             let obj' = obj\<lparr>obj_attrs := (obj_attrs obj)(attr \<mapsto> bt)\<rparr> in
                             (case graphic_obj obj' of
                                None \<Rightarrow> (set_object m i obj', Some AttributeError)
                              | Some n \<Rightarrow> (set_object m i (obj'\<lparr>graphic_obj := Some (Suc n)\<rparr>), None)))
                      else (set_object m i (obj\<lparr>obj_attrs := (obj_attrs obj)(attr \<mapsto> v)\<rparr>), None))
               else (m, None)
             else (m, None))))"

section \<open>The tower builder's tables (TowerBuilder/table_models.py)\<close>

text \<open>
  Values of wire attributes and of edits: strings, ints and floats. A float is not-a-number,
  an infinity (True for the positive one) or a finite number; only its order against the
  integers 0 and 3 is used, which is exact.
\<close>

datatype pyfloat = nan | inf bool | finite real

datatype pyval = py_str string | py_int int | py_float pyfloat



type_synonym wire = "string \<rightharpoonup> pyval"

type_synonym converter = "pyval \<Rightarrow> error + pyval"

record WiresTable =
  wt_header :: "string list"
  wt_index_prop :: "int \<rightharpoonup> string"
  wt_converter :: "int \<rightharpoonup> converter"
  wt_editable :: "bool list"
  wires :: "wire list"

text \<open>The constructor; \<open>str_conv\<close> and \<open>float_conv\<close> are the builtins \<open>str\<close> and \<open>float\<close>.\<close>

definition WiresTable_init :: "converter \<Rightarrow> converter \<Rightarrow> WiresTable" where
  "WiresTable_init str_conv float_conv =
     \<lparr>wt_header = [''Name'', ''R (Ohm/km)'', ''GMR (m)''],
      wt_index_prop = [0 \<mapsto> ''name'', 1 \<mapsto> ''r'', 2 \<mapsto> ''gmr''],
      wt_converter = [0 \<mapsto> str_conv, 1 \<mapsto> float_conv, 2 \<mapsto> float_conv],
      wt_editable = [True, True, True],
      wires = []\<rparr>"

definition wt_add :: "WiresTable \<Rightarrow> wire \<Rightarrow> WiresTable" where
  "wt_add t w = t\<lparr>wires := wires t @ [w]\<rparr>"

text \<open>\<open>list.pop(index)\<close>\<close>

definition wt_delete :: "WiresTable \<Rightarrow> int \<Rightarrow> error + WiresTable" where
  "wt_delete t i =
     (case py_index (length (wires t)) i of
        None \<Rightarrow> Inl IndexError
      | Some j \<Rightarrow> Inr (t\<lparr>wires := take j (wires t) @ drop (Suc j) (wires t)\<rparr>))"

text \<open>\<open>is_used\<close> walks the wires from the last to the first.\<close>

fun name_used :: "wire list \<Rightarrow> pyval \<Rightarrow> error + bool" where
  "name_used [] name = Inr False"
| "name_used (w # rest) name =
     ebind (lookup AttributeError w ''name'') (\<lambda>x.
       if x = name then Inr True else name_used rest name)"

definition wt_is_used :: "WiresTable \<Rightarrow> pyval \<Rightarrow> error + bool" where
  "wt_is_used t name = name_used (rev (wires t)) name"

definition wt_rowCount :: "WiresTable \<Rightarrow> nat" where
  "wt_rowCount t = length (wires t)"

definition wt_columnCount :: "WiresTable \<Rightarrow> nat" where
  "wt_columnCount t = length (wt_header t)"

text \<open>\<open>setattr(wire, attr, self.converter[index.column()](value))\<close> on the wire of a row.\<close>

definition wt_store :: "WiresTable \<Rightarrow> QModelIndex \<Rightarrow> nat \<Rightarrow> string \<Rightarrow> pyval \<Rightarrow> error + WiresTable" where
  "wt_store t index i attr v =
     ebind (lookup KeyError (wt_converter t) (column index)) (\<lambda>conv.
     ebind (conv v) (\<lambda>x.
     Inr (t\<lparr>wires := (wires t)[i := (wires t ! i)(attr \<mapsto> x)]\<rparr>)))"

definition wt_setData :: "WiresTable \<Rightarrow> QModelIndex \<Rightarrow> pyval \<Rightarrow> error + WiresTable" where
  "wt_setData t index v =
     ebind (getitem (wt_editable t) (column index)) (\<lambda>ed.
       if ed then
         (case py_index (length (wires t)) (row index) of
            None \<Rightarrow> Inl IndexError
          | Some i \<Rightarrow>
              ebind (lookup KeyError (wt_index_prop t) (column index)) (\<lambda>attr.
                if attr = ''tower_name'' then
                  ebind (wt_is_used t v) (\<lambda>used.
                    if used then Inr t else wt_store t index i attr v)
                else wt_store t index i attr v))
       else Inr t)"

text \<open>
  The engine's Tower, as far as TowerModel reads it: the wires, and the tables of the wire
  columns (header, attribute of a column, converter of a column, editable columns), whose
  contents the Tower class fixes.
\<close>

record Tower =
  wires_in_tower :: "wire list"
  tower_header :: "string list"
  tower_index_prop :: "int \<rightharpoonup> string"
  tower_converter :: "int \<rightharpoonup> converter"
  editable_wire :: "bool list"

text \<open>
  TowerModel: the tower, whether an edit callback is set, and how often it has been called.
\<close>

record TowerModel =
  tower :: Tower
  edit_callback :: bool
  callback_calls :: nat

definition tm_rowCount :: "TowerModel \<Rightarrow> nat" where
  "tm_rowCount m = length (wires_in_tower (tower m))"

definition tm_columnCount :: "TowerModel \<Rightarrow> nat" where
  "tm_columnCount m = length (tower_header (tower m))"







section \<open>EnumModel and MeasurementsModel (GuiFunctions.py)\<close>

text \<open>
  An instance of either class is its attribute dictionary: the constructor of EnumModel
  sets \<open>items\<close>, that of MeasurementsModel sets \<open>circuit\<close>. The base class
  QAbstractListModel has no attribute \<open>items\<close>. An item is an enumeration member, given
  by its \<open>value\<close> (a sequence of strings).
\<close>

datatype 'c slot = items_slot "string list list" | circuit_slot 'c

type_synonym 'c py_object = "string \<rightharpoonup> 'c slot"

definition EnumModel_init :: "string list list \<Rightarrow> 'c py_object" where
  "EnumModel_init list_of_enums = [''items'' \<mapsto> items_slot list_of_enums]"

definition MeasurementsModel_init :: "'c \<Rightarrow> 'c py_object" where
  "MeasurementsModel_init circ = [''circuit'' \<mapsto> circuit_slot circ]"

text \<open>
  \<open>rowCount\<close> and \<open>data\<close> are written the same in EnumModel and in
  MeasurementsModel, so one definition of each serves both classes. \<open>rowCount\<close> is
  \<open>len(self.items)\<close>; a circuit under that name would have no length.
\<close>

definition list_rowCount :: "'c py_object \<Rightarrow> error + nat" where
  "list_rowCount self =
     ebind (lookup AttributeError self ''items'') (\<lambda>v.
       case v of items_slot xs \<Rightarrow> Inr (length xs) | circuit_slot c \<Rightarrow> Inl TypeError)"

text \<open>\<open>self.items[index.row()].value[0]\<close>\<close>

definition list_data :: "'c py_object \<Rightarrow> QModelIndex \<Rightarrow> role \<Rightarrow> error + string option" where
  "list_data self index rl =
     (if isValid index \<and> rl = DisplayRole then
        ebind (lookup AttributeError self ''items'') (\<lambda>v.
          case v of
            items_slot xs \<Rightarrow>
              ebind (getitem xs (row index)) (\<lambda>item.
              ebind (getitem item 0) (\<lambda>s. Inr (Some s)))
          | circuit_slot c \<Rightarrow> Inl TypeError)
      else Inr None)"

section \<open>Sample models\<close>

definition no_datetime :: "string \<Rightarrow> bool" where
  "no_datetime x = False"

text \<open>A data frame of two rows and three columns, with integers for numbers.\<close>

definition sample_frame :: "(string, int cell) DataFrame" where
  "sample_frame =
     \<lparr>df_values = \<lparr>dim0 = 2, dim1 = 3,
                    cells = [[cell_num 1, cell_num 0, cell_str ''x''],
                             [cell_complex 0 0, cell_complex 0 2, cell_num 3]]\<rparr>,
      df_columns = [''a'', ''b'', ''c''], df_index = [''r1'', ''r2'']\<rparr>"

text \<open>Two buses and the three attributes shown of them.\<close>

definition bus_A :: "string gc_object" where
  "bus_A = \<lparr>obj_attrs = [''name'' \<mapsto> ''A'', ''code'' \<mapsto> ''1'', ''country'' \<mapsto> ''ES''],
            graphic_obj = Some 0\<rparr>"

definition bus_B :: "string gc_object" where
  "bus_B = \<lparr>obj_attrs = [''name'' \<mapsto> ''B'', ''code'' \<mapsto> ''2'', ''country'' \<mapsto> ''ES''],
            graphic_obj = Some 0\<rparr>"

definition bus_headers :: "(string \<times> GCProp) list" where
  "bus_headers =
     [(''name'', \<lparr>prop_units = '''', prop_tpe = t_str, prop_definition = ''Name of the bus''\<rparr>),
      (''code'', \<lparr>prop_units = '''', prop_tpe = t_str, prop_definition = ''Code of the bus''\<rparr>),
      (''country'', \<lparr>prop_units = '''', prop_tpe = t_str, prop_definition = ''Country of the bus''\<rparr>)]"

definition no_branch_type :: "string \<Rightarrow> error + string" where
  "no_branch_type v = Inl ValueError"

text \<open>A wire, and converters to build tables with: one that keeps the value as it is.\<close>

definition keep :: converter where
  "keep v = Inr v"

definition wire_1 :: wire where
  "wire_1 = [''name'' \<mapsto> py_str ''w1'', ''r'' \<mapsto> py_int 1, ''gmr'' \<mapsto> py_int 2]"

definition wire_2 :: wire where
  "wire_2 = [''name'' \<mapsto> py_str ''w2'', ''r'' \<mapsto> py_int 3, ''gmr'' \<mapsto> py_int 4]"

text \<open>
  Integers as numbers, to run the display on: the format functions here only mark that
  the format string was applied.
\<close>

definition int_numeric :: "int numeric" where
  "int_numeric =
     \<lparr>ne_zero = (\<lambda>x. x \<noteq> 0),
      format_num = (\<lambda>x f. Inr (str_int x @ '' as '' @ f)),
      format_complex = (\<lambda>re im f. Inr (str_int re @ ''+'' @ str_int im @ ''j as '' @ f))\<rparr>"

definition sample_results :: "(string, int cell) ResultsTable" where
  "sample_results =
     \<lparr>cols_c = [''a'', ''b'', ''c''], index_c = [''r1'', ''r2''],
      data_c = df_values sample_frame, table_r = 2, table_c = 3, format_string = ''.4f'',
      table_editable = False, editable_min_idx = - 1\<rparr>"

definition cell_at :: "int \<Rightarrow> int \<Rightarrow> QModelIndex" where
  "cell_at i j = \<lparr>row = i, column = j, has_model = True\<rparr>"

text \<open>
  The model of the two buses with \<open>name\<close> both under the uniqueness check and not
  editable, and the one with \<open>name\<close> under the check and editable.
\<close>

definition locked_names :: "string ObjectsModel" where
  "locked_names =
     \<lparr>attributes = [''name'', ''code'', ''country''], attribute_types = [t_str, t_str, t_str],
      units = ['''', '''', ''''],
      tips = [''Name of the bus'', ''Code of the bus'', ''Country of the bus''],
      objects = [bus_A, bus_B], om_editable = True, non_editable_attributes = [''name''],
      check_unique = [''name''], om_r = 2, om_c = 3, transposed = False,
      dictionary_of_lists = []\<rparr>"

definition unique_names :: "string ObjectsModel" where
  "unique_names = locked_names\<lparr>non_editable_attributes := []\<rparr>"

text \<open>The table of the two wires.\<close>

definition two_wires :: WiresTable where
  "two_wires = wt_add (wt_add (WiresTable_init keep keep) wire_1) wire_2"

text \<open>
  Two towers to run TowerModel on. Their tables are laid out as four wire columns (name,
  xpos, ypos, phase), the first not editable. A converter table holds callables; two are
  defined here. \<open>digits_conv\<close> gives an int: of a string of decimal digits, of an int and
  of a finite float (truncated), and raises ValueError on anything else; on the values it
  is applied to below it gives what the builtin \<open>int\<close> gives. \<open>float_conv\<close> gives a
  float: of a float, of an int, of the strings \<open>nan\<close>, \<open>inf\<close> and \<open>-inf\<close> and of a
  string of decimal digits, and raises ValueError on anything else; on the string
  \<open>nan\<close> it gives not-a-number, as the builtin \<open>float\<close> does.
\<close>

fun digits_value :: "string \<Rightarrow> nat \<Rightarrow> nat option" where
  "digits_value [] acc = Some acc"
| "digits_value (c # cs) acc =
     (if c \<in> set ''0123456789'' then digits_value cs (10 * acc + (of_char c - 48)) else None)"


definition float_conv :: converter where
  "float_conv v =
     (case v of
        py_str s \<Rightarrow>
          (if s = ''nan'' then Inr (py_float nan)
           else if s = ''inf'' then Inr (py_float (inf True))
           else if s = ''-inf'' then Inr (py_float (inf False))
           else if s = [] then Inl ValueError
           else case digits_value s 0 of
                  None \<Rightarrow> Inl ValueError
                | Some n \<Rightarrow> Inr (py_float (finite (of_nat n))))
      | py_int i \<Rightarrow> Inr (py_float (finite (of_int i)))
      | py_float f \<Rightarrow> Inr (py_float f))"







section \<open>Basic facts\<close>

lemma ebind_simps:
  "ebind (Inl e) f = Inl e"
  "ebind (Inr x) f = f x"
  by (simp_all add: ebind_def)

lemma ebind_Inr_iff:
  "ebind m f = Inr y \<longleftrightarrow> (\<exists>x. m = Inr x \<and> f x = Inr y)"
  by (cases m) (simp_all add: ebind_def)

section \<open>ObjectHistory: the bound of the undo stack\<close>

lemma add_state_length:
  "add_state a d h = Inr h' \<Longrightarrow>
   length (undo_stack h') =
     (if int (length (undo_stack h)) > max_undo_states h + 1
      then length (undo_stack h) else Suc (length (undo_stack h)))"
  by (cases "undo_stack h")
     (auto simp: add_state_def ebind_def pop_first_def split: if_splits)

lemma add_state_max:
  "add_state a d h = Inr h' \<Longrightarrow> max_undo_states h' = max_undo_states h"
  by (cases "undo_stack h")
     (auto simp: add_state_def ebind_def pop_first_def split: if_splits)

text \<open>
  What the guard \<open>len(self.undo_stack) > (self.max_undo_states + 1)\<close> does keep: a stack
  of at most \<open>max_undo_states + 2\<close> entries stays so under every sequence of
  \<open>add_state\<close> calls.
\<close>

lemma add_states_bound:
  "add_states xs h = Inr h' \<Longrightarrow>
   int (length (undo_stack h)) \<le> max_undo_states h + 2 \<Longrightarrow>
   int (length (undo_stack h')) \<le> max_undo_states h + 2 \<and> max_undo_states h' = max_undo_states h"
proof (induction xs arbitrary: h)
  case Nil
  then show ?case by simp
next
  case (Cons x xs)
  obtain a d where x: "x = (a, d)" by (cases x)
  from Cons.prems(1) obtain h1 where
    h1: "add_state a d h = Inr h1" and rest: "add_states xs h1 = Inr h'"
    by (auto simp: x ebind_Inr_iff)
  have "int (length (undo_stack h1)) \<le> max_undo_states h1 + 2"
    using add_state_length [OF h1] add_state_max [OF h1] Cons.prems(2)
    by (auto split: if_splits)
  from Cons.IH [OF rest this] add_state_max [OF h1] show ?case by simp
qed

text \<open>
  Claim C2: for every ObjectHistory with maximum \<open>max_undo_states\<close> and every sequence of
  \<open>add_state\<close> calls, the undo stack never holds more than \<open>max_undo_states\<close> entries.
  The code does not keep that bound: the guard compares with \<open>max_undo_states + 1\<close> and
  runs before the append. With \<open>max_undo_states = 1\<close>, three calls of \<open>add_state\<close> on a
  fresh history leave three entries on the undo stack, none evicted.
\<close>

theorem add_state_exceeds_max_undo_states:
  "add_states [(''a'', 0::nat), (''b'', 1), (''c'', 2)] (ObjectHistory_init 1) =
     Inr \<lparr>max_undo_states = 1, position = 2,
          undo_stack = [(''a'', 0), (''b'', 1), (''c'', 2)], redo_stack = []\<rparr>"
  by (simp add: add_state_def ebind_def pop_first_def ObjectHistory_init_def)

section \<open>ProfilesModel: an edit followed by undo\<close>

lemma getitem_setitem_same:
  "setitem xs i v = Inr ys \<Longrightarrow> getitem ys i = Inr v"
  by (auto simp: setitem_def getitem_def py_index_def split: option.splits if_splits)

lemma add_state_top:
  "add_state a d h = Inr h' \<Longrightarrow> undo_stack h' \<noteq> [] \<and> last (undo_stack h') = (a, d)"
  by (auto simp: add_state_def ebind_Inr_iff split: if_splits)

lemma pm_setData_Inr:
  assumes "column idx \<notin> set (non_editable_indices m)"
    and "pm_setData m idx v = Inr m1"
  obtains a arr h where
    "profile_array m (column idx) = Inr a"
    "setitem (arrays m a) (row idx) v = Inr arr"
    "add_state '''' [(column idx, next_addr m)] (history m) = Inr h"
    "m1 = m\<lparr>arrays := (arrays m)(a := arr, next_addr m := arr), next_addr := Suc (next_addr m), history := h\<rparr>"
  using assms
  by (auto simp: pm_setData_def ebind_Inr_iff pm_add_state_def copy_array_def profile_array_def)

text \<open>
  In general: \<open>setData\<close> pushes the snapshot taken after its write, and \<open>undo\<close> pops
  that very entry, so the first undo after an edit leaves the edited column with the
  edited contents.
\<close>

lemma setData_then_undo:
  assumes ed: "column idx \<notin> set (non_editable_indices m)"
    and sd: "pm_setData m idx v = Inr m1"
    and un: "pm_undo m1 = Inr m2"
  shows "\<exists>a arr. profile_array m (column idx) = Inr a \<and>
           setitem (arrays m a) (row idx) v = Inr arr \<and>
           profile_values m2 (column idx) = Inr arr"
proof -
  from ed sd obtain a arr h where
    pa: "profile_array m (column idx) = Inr a" and
    si: "setitem (arrays m a) (row idx) v = Inr arr" and
    ad: "add_state '''' [(column idx, next_addr m)] (history m) = Inr h" and
    m1: "m1 = m\<lparr>arrays := (arrays m)(a := arr, next_addr m := arr), next_addr := Suc (next_addr m), history := h\<rparr>"
    by (rule pm_setData_Inr)
  from add_state_top [OF ad] have top: "undo_stack h \<noteq> []" "last (undo_stack h) = ('''', [(column idx, next_addr m)])"
    by simp_all
  from pa obtain el pp where
    el: "getitem (elements m) (column idx) = Inr el" and
    pp: "properties_with_profile el (magnitude m) = Some pp"
    by (auto simp: profile_array_def ebind_Inr_iff lookup_def split: option.splits)
  from un top m1 el pp obtain els where
    els: "setitem (elements m) (column idx) (el\<lparr>attrs := (attrs el)(pp \<mapsto> next_addr m)\<rparr>) = Inr els" and
    m2: "elements m2 = els" "arrays m2 = arrays m1" "magnitude m2 = magnitude m"
    by (auto simp: pm_undo_def can_undo_def history_undo_def pop_last_def ebind_Inr_iff lookup_def)
  from getitem_setitem_same [OF els] m2 m1 pp
  have "profile_values m2 (column idx) = Inr arr"
    by (simp add: profile_values_def profile_array_def ebind_simps lookup_def)
  with pa si show ?thesis by blast
qed

lemmas profiles_eval =
  ProfilesModel_init_def pm_add_state_def add_state_def ebind_def pop_first_def pop_last_def
  ObjectHistory_init_def profile_array_def profile_values_def getitem_def setitem_def
  py_index_def lookup_def copy_array_def pm_setData_def pm_undo_def can_undo_def
  history_undo_def one_device_def one_profile_def

lemma one_device_initial_profile:
  "ebind (ProfilesModel_init 2 [one_device] ''P'' 100 one_profile 1) (\<lambda>m. profile_values m 0)
     = Inr [1, 2]"
  by (simp add: profiles_eval)

text \<open>
  Claim C1: after \<open>setData\<close> changes a profile cell and \<open>undo()\<close> is called, the profile
  array of the edited column is again the snapshot it held before the edit.
  The code does not do that: on the model of one device with profile \<open>[1, 2]\<close>, the edit
  of row 0 to 9 followed by \<open>undo()\<close> leaves the profile \<open>[9, 2]\<close>, not \<open>[1, 2]\<close>.
\<close>

theorem setData_undo_keeps_the_edit:
  "ebind (ProfilesModel_init 2 [one_device] ''P'' 100 one_profile 1) (\<lambda>m0.
   ebind (pm_setData m0 \<lparr>row = 0, column = 0, has_model = True\<rparr> 9) (\<lambda>m1.
   ebind (pm_undo m1) (\<lambda>m2. profile_values m2 0))) = Inr [9, 2]"
  by (simp add: profiles_eval)

section \<open>Clipboard export of a results table\<close>







section \<open>The file threads: cancellation and completion\<close>

lemma done_not_emitted: "done_signal \<notin> set (map emit events)"
proof (induction events)
  case Nil
  show ?case by simp
next
  case (Cons e events)
  then show ?case by (cases e) simp_all
qed

lemma cancel_changes_flag_only:
  "open_run eng (open_cancel_call t) =
     (open_run eng t)\<lparr>thread := (thread (open_run eng t))\<lparr>open_cancel := True\<rparr>\<rparr>
   \<and> save_run eng (save_cancel_call s) =
     (save_run eng s)\<lparr>thread := (thread (save_run eng s))\<lparr>save_cancel := True\<rparr>\<rparr>"
  by (simp add: open_run_def save_run_def open_cancel_call_def save_cancel_call_def Let_def
      split: sum.splits prod.splits fname.splits)

text \<open>
  Claim C4: for FileOpenThread and FileSaveThread alike, \<open>cancel()\<close> sets the flag and
  \<open>run()\<close> never reads it: the signals emitted, the exception raised (if any) and the
  final circuit, logger and valid flag are the same whether or not \<open>cancel()\<close> was called
  before \<open>run()\<close>.
\<close>

theorem cancel_never_honored:
  "open_cancel (open_cancel_call t) \<and> save_cancel (save_cancel_call s)
   \<and> emitted (open_run eng (open_cancel_call t)) = emitted (open_run eng t)
   \<and> raised (open_run eng (open_cancel_call t)) = raised (open_run eng t)
   \<and> open_circuit (thread (open_run eng (open_cancel_call t))) = open_circuit (thread (open_run eng t))
   \<and> open_logger (thread (open_run eng (open_cancel_call t))) = open_logger (thread (open_run eng t))
   \<and> open_valid (thread (open_run eng (open_cancel_call t))) = open_valid (thread (open_run eng t))
   \<and> emitted (save_run eng (save_cancel_call s)) = emitted (save_run eng s)
   \<and> raised (save_run eng (save_cancel_call s)) = raised (save_run eng s)
   \<and> save_circuit (thread (save_run eng (save_cancel_call s))) = save_circuit (thread (save_run eng s))
   \<and> save_logger (thread (save_run eng (save_cancel_call s))) = save_logger (thread (save_run eng s))
   \<and> save_valid (thread (save_run eng (save_cancel_call s))) = save_valid (thread (save_run eng s))"
  using cancel_changes_flag_only [of eng t s]
  by (simp add: open_cancel_call_def save_cancel_call_def)

lemmas threads_eval =
  open_run_def save_run_def demo_engine_def demo_open_def demo_save_def empty_list_open_def
  FileOpenThread_init_def FileSaveThread_init_def getitem_def py_index_def Let_def

theorem cancel_never_honored_witness:
  "emitted (open_run demo_engine (open_cancel_call demo_open)) =
     [progress_text ''Loading grid.gridcal...'', progress_text ''reading'', progress_signal 50,
      progress_text ''Done!'', done_signal]
   \<and> emitted (open_run demo_engine demo_open) =
     [progress_text ''Loading grid.gridcal...'', progress_text ''reading'', progress_signal 50,
      progress_text ''Done!'', done_signal]"
  using cancel_never_honored [of demo_open demo_save demo_engine]
  by (simp add: threads_eval)

lemma open_run_returns:
  assumes "raised (open_run eng t) = None"
  shows "\<exists>f events circ hl.
     FileOpen_open eng (open_file_name t) = (events, Inr (circ, hl)) \<and>
     emitted (open_run eng t) =
       (progress_text (''Loading '' @ snd (path_split eng f) @ ''...'') # map emit events
          @ [progress_text ''Done!'']) @ [done_signal] \<and>
     thread (open_run eng t) =
       t\<lparr>open_circuit := Some circ, open_logger := logger_iadd eng (Logger eng) hl,
          open_valid := True\<rparr>"
  using assms
  by (auto simp: open_run_def Let_def split: sum.splits prod.splits fname.splits)

lemma open_run_raises:
  assumes "raised (open_run eng t) = Some e"
  shows "done_signal \<notin> set (emitted (open_run eng t))"
  using assms done_not_emitted
  by (auto simp: open_run_def Let_def split: sum.splits prod.splits fname.splits)

lemma save_run_returns:
  assumes "raised (save_run eng s) = None"
  shows "\<exists>f events hl.
     FileSave_save eng (save_circuit s) (save_file_name s) (simulation_drivers s) (sessions s)
       = (events, Inr hl) \<and>
     emitted (save_run eng s) =
       (progress_text (''Flushing '' @ f @ '' into '' @ f @ ''...'') # map emit events
          @ [progress_text ''Done!'']) @ [done_signal] \<and>
     thread (save_run eng s) = s\<lparr>save_logger := hl, save_valid := True\<rparr>"
  using assms
  by (auto simp: save_run_def Let_def split: sum.splits prod.splits fname.splits)

lemma save_run_raises:
  assumes "raised (save_run eng s) = Some e"
  shows "done_signal \<notin> set (emitted (save_run eng s))"
  using assms done_not_emitted
  by (auto simp: save_run_def Let_def split: sum.splits prod.splits fname.splits)

text \<open>
  Claim C6, as stated: every invocation of \<open>run()\<close> emits exactly one \<open>done_signal\<close>,
  and errors go to the logger rather than being raised. \<open>run()\<close> catches nothing: on a
  FileOpenThread whose file name is the empty list, \<open>self.file_name[0]\<close> raises
  IndexError, the run ends there, and no signal at all is emitted.
\<close>

theorem run_without_completion:
  "emitted (open_run demo_engine empty_list_open) = []
   \<and> raised (open_run demo_engine empty_list_open) = Some IndexError
   \<and> count_list (emitted (open_run demo_engine empty_list_open)) done_signal = 0"
  by (simp add: threads_eval)

text \<open>
  Claim C6, amended: an invocation of \<open>run()\<close> on FileOpenThread or FileSaveThread that
  ends without an exception emits exactly one \<open>done_signal\<close>, as the last signal, after
  every progress event, and the thread's logger then holds what the engine's handler
  logged (for the open thread, a fresh logger to which the handler's logger is added; for
  the save thread, the logger \<open>save()\<close> returns). \<open>run()\<close> itself catches no exception:
  an invocation ended by one emits no \<open>done_signal\<close>.
\<close>

theorem run_completes_once:
  "(raised (open_run eng t) = None \<longrightarrow>
      (\<exists>pre. emitted (open_run eng t) = pre @ [done_signal] \<and> done_signal \<notin> set pre) \<and>
      (\<exists>events circ hl. FileOpen_open eng (open_file_name t) = (events, Inr (circ, hl)) \<and>
         open_logger (thread (open_run eng t)) = logger_iadd eng (Logger eng) hl))
   \<and> (raised (open_run eng t) \<noteq> None \<longrightarrow> done_signal \<notin> set (emitted (open_run eng t)))
   \<and> (raised (save_run eng s) = None \<longrightarrow>
      (\<exists>pre. emitted (save_run eng s) = pre @ [done_signal] \<and> done_signal \<notin> set pre) \<and>
      (\<exists>events hl. FileSave_save eng (save_circuit s) (save_file_name s) (simulation_drivers s)
           (sessions s) = (events, Inr hl) \<and>
         save_logger (thread (save_run eng s)) = hl))
   \<and> (raised (save_run eng s) \<noteq> None \<longrightarrow> done_signal \<notin> set (emitted (save_run eng s)))"
proof (intro conjI impI)
  assume r: "raised (open_run eng t) = None"
  from open_run_returns [OF r] obtain f events circ hl where
    h: "FileOpen_open eng (open_file_name t) = (events, Inr (circ, hl))"
    and e: "emitted (open_run eng t) =
       (progress_text (''Loading '' @ snd (path_split eng f) @ ''...'') # map emit events
          @ [progress_text ''Done!'']) @ [done_signal]"
    and th: "thread (open_run eng t) =
       t\<lparr>open_circuit := Some circ, open_logger := logger_iadd eng (Logger eng) hl,
          open_valid := True\<rparr>"
    by blast
  have "done_signal \<notin> set (progress_text (''Loading '' @ snd (path_split eng f) @ ''...'')
          # map emit events @ [progress_text ''Done!''])"
    using done_not_emitted [of events] by simp
  with e show "\<exists>pre. emitted (open_run eng t) = pre @ [done_signal] \<and> done_signal \<notin> set pre"
    by blast
  from h th show "\<exists>events circ hl. FileOpen_open eng (open_file_name t) = (events, Inr (circ, hl)) \<and>
         open_logger (thread (open_run eng t)) = logger_iadd eng (Logger eng) hl"
    by simp
next
  assume "raised (open_run eng t) \<noteq> None"
  then obtain e where "raised (open_run eng t) = Some e" by blast
  then show "done_signal \<notin> set (emitted (open_run eng t))" by (rule open_run_raises)
next
  assume r: "raised (save_run eng s) = None"
  from save_run_returns [OF r] obtain f events hl where
    h: "FileSave_save eng (save_circuit s) (save_file_name s) (simulation_drivers s) (sessions s)
       = (events, Inr hl)"
    and e: "emitted (save_run eng s) =
       (progress_text (''Flushing '' @ f @ '' into '' @ f @ ''...'') # map emit events
          @ [progress_text ''Done!'']) @ [done_signal]"
    and th: "thread (save_run eng s) = s\<lparr>save_logger := hl, save_valid := True\<rparr>"
    by blast
  have "done_signal \<notin> set (progress_text (''Flushing '' @ f @ '' into '' @ f @ ''...'')
          # map emit events @ [progress_text ''Done!''])"
    using done_not_emitted [of events] by simp
  with e show "\<exists>pre. emitted (save_run eng s) = pre @ [done_signal] \<and> done_signal \<notin> set pre"
    by blast
  from h th show "\<exists>events hl. FileSave_save eng (save_circuit s) (save_file_name s)
           (simulation_drivers s) (sessions s) = (events, Inr hl) \<and>
         save_logger (thread (save_run eng s)) = hl"
    by simp
next
  assume "raised (save_run eng s) \<noteq> None"
  then obtain e where "raised (save_run eng s) = Some e" by blast
  then show "done_signal \<notin> set (emitted (save_run eng s))" by (rule save_run_raises)
qed

theorem run_completes_once_witness:
  "raised (open_run demo_engine demo_open) = None
   \<and> emitted (open_run demo_engine demo_open) =
       [progress_text ''Loading grid.gridcal...'', progress_text ''reading'', progress_signal 50,
        progress_text ''Done!''] @ [done_signal]
   \<and> open_logger (thread (open_run demo_engine demo_open)) = [''bus 3 has no name'']
   \<and> raised (save_run demo_engine demo_save) = None
   \<and> emitted (save_run demo_engine demo_save) =
       [progress_text ''Flushing out.gridcal into out.gridcal...'', progress_signal 100,
        progress_text ''Done!''] @ [done_signal]
   \<and> save_logger (thread (save_run demo_engine demo_save)) = [''saved'']
   \<and> raised (open_run demo_engine empty_list_open) = Some IndexError
   \<and> done_signal \<notin> set (emitted (open_run demo_engine empty_list_open))"
  using run_completes_once [of demo_engine demo_open demo_save]
    run_completes_once [of demo_engine empty_list_open demo_save]
  by (simp add: threads_eval)

section \<open>Row and column counts\<close>

lemma PandasModel_init_counts:
  "PandasModel_init is_dt df ed mi dec = Inr m \<Longrightarrow>
   pd_data_c m = df_values df \<and> pd_r m = dim0 (df_values df) \<and> pd_c m = dim1 (df_values df)"
  by (auto simp: PandasModel_init_def ebind_Inr_iff)

lemma setitem2_shape:
  "setitem2 d i j v = Inr d' \<Longrightarrow>
   dim0 d' = dim0 d \<and> dim1 d' = dim1 d \<and> length (cells d') = length (cells d)"
  by (auto simp: setitem2_def ebind_Inr_iff split: option.splits)

lemma pd_setData_counts:
  "pd_setData m idx v = Inr m' \<Longrightarrow>
   pd_r m' = pd_r m \<and> pd_c m' = pd_c m \<and> dim0 (pd_data_c m') = dim0 (pd_data_c m)
   \<and> dim1 (pd_data_c m') = dim1 (pd_data_c m)"
  by (auto simp: pd_setData_def ebind_Inr_iff dest: setitem2_shape)

lemma ObjectsModel_init_counts:
  "ObjectsModel_init objs hdr ed ne tr u k = Inr m \<Longrightarrow>
   objects m = objs \<and> attributes m = map fst hdr \<and> transposed m = tr \<and>
   om_r m = length objs \<and> om_c m = length hdr"
  by (auto simp: ObjectsModel_init_def ebind_Inr_iff)

lemma om_setData_counts:
  "om_setData bt m idx v = (m', e) \<Longrightarrow>
   length (objects m') = length (objects m) \<and> attributes m' = attributes m \<and>
   transposed m' = transposed m \<and> om_r m' = om_r m \<and> om_c m' = om_c m"
  by (auto simp: om_setData_def Let_def set_object_def split: sum.splits if_splits option.splits)

text \<open>
  Claim C7: \<open>rowCount()\<close> is the size of the underlying collection and \<open>columnCount()\<close>
  the number of exposed properties. A PandasModel built from a data frame counts the rows
  and columns of the frame's values, and \<open>setData\<close> keeps counts and shape; a WiresTable
  counts its wires and its headers; an ObjectsModel built from objects and editable
  headers counts the objects and the attributes, the two swapped when it is transposed,
  and \<open>setData\<close> changes neither.
\<close>

theorem counts_match_collections:
  "(PandasModel_init is_dt df ed mi dec = Inr pm \<longrightarrow>
      pd_data_c pm = df_values df \<and>
      pd_rowCount pm = dim0 (df_values df) \<and> pd_columnCount pm = dim1 (df_values df))
   \<and> (pd_setData pm0 idx v = Inr pm1 \<longrightarrow>
      pd_rowCount pm1 = pd_rowCount pm0 \<and> pd_columnCount pm1 = pd_columnCount pm0 \<and>
      dim0 (pd_data_c pm1) = dim0 (pd_data_c pm0) \<and> dim1 (pd_data_c pm1) = dim1 (pd_data_c pm0))
   \<and> wt_rowCount wt = length (wires wt) \<and> wt_columnCount wt = length (wt_header wt)
   \<and> (ObjectsModel_init objs hdr e ne tr u k = Inr om \<longrightarrow>
      objects om = objs \<and> attributes om = map fst hdr \<and>
      om_rowCount om = (if tr then length (attributes om) else length (objects om)) \<and>
      om_columnCount om = (if tr then length (objects om) else length (attributes om)))
   \<and> (om_setData bt om0 idx' v' = (om1, exc) \<longrightarrow>
      length (objects om1) = length (objects om0) \<and> attributes om1 = attributes om0 \<and>
      om_rowCount om1 = om_rowCount om0 \<and> om_columnCount om1 = om_columnCount om0)"
proof (intro conjI impI)
  assume "PandasModel_init is_dt df ed mi dec = Inr pm"
  from PandasModel_init_counts [OF this]
  show "pd_data_c pm = df_values df" "pd_rowCount pm = dim0 (df_values df)"
    "pd_columnCount pm = dim1 (df_values df)"
    by (simp_all add: pd_rowCount_def pd_columnCount_def)
next
  assume "pd_setData pm0 idx v = Inr pm1"
  from pd_setData_counts [OF this]
  show "pd_rowCount pm1 = pd_rowCount pm0" "pd_columnCount pm1 = pd_columnCount pm0"
    "dim0 (pd_data_c pm1) = dim0 (pd_data_c pm0)" "dim1 (pd_data_c pm1) = dim1 (pd_data_c pm0)"
    by (simp_all add: pd_rowCount_def pd_columnCount_def)
next
  show "wt_rowCount wt = length (wires wt)" by (simp add: wt_rowCount_def)
  show "wt_columnCount wt = length (wt_header wt)" by (simp add: wt_columnCount_def)
next
  assume "ObjectsModel_init objs hdr e ne tr u k = Inr om"
  from ObjectsModel_init_counts [OF this]
  show "objects om = objs" "attributes om = map fst hdr"
    "om_rowCount om = (if tr then length (attributes om) else length (objects om))"
    "om_columnCount om = (if tr then length (objects om) else length (attributes om))"
    by (simp_all add: om_rowCount_def om_columnCount_def)
next
  assume "om_setData bt om0 idx' v' = (om1, exc)"
  from om_setData_counts [OF this]
  show "length (objects om1) = length (objects om0)" "attributes om1 = attributes om0"
    "om_rowCount om1 = om_rowCount om0" "om_columnCount om1 = om_columnCount om0"
    by (simp_all add: om_rowCount_def om_columnCount_def)
qed

lemmas counts_eval =
  PandasModel_init_def pd_setData_def setitem2_def getitem_def setitem_def py_index_def ebind_def
  sample_frame_def no_datetime_def pd_rowCount_def pd_columnCount_def
  wt_rowCount_def wt_columnCount_def wt_add_def WiresTable_init_def
  ObjectsModel_init_def om_rowCount_def om_columnCount_def bus_headers_def

theorem counts_match_collections_witness:
  "(case PandasModel_init no_datetime sample_frame False (- 1) 6 of
      Inl e \<Rightarrow> False
    | Inr m \<Rightarrow> pd_rowCount m = 2 \<and> pd_columnCount m = 3 \<and>
        (case pd_setData m \<lparr>row = 0, column = 1, has_model = True\<rparr> (cell_num 5) of
           Inl e \<Rightarrow> False
         | Inr m' \<Rightarrow> pd_rowCount m' = 2 \<and> pd_columnCount m' = 3))
   \<and> wt_rowCount (wt_add (WiresTable_init keep keep) wire_1) = 1
   \<and> wt_columnCount (wt_add (WiresTable_init keep keep) wire_1) = 3
   \<and> (case ObjectsModel_init [bus_A, bus_B] bus_headers True [] False [''name''] [] of
        Inl e \<Rightarrow> False
      | Inr m \<Rightarrow> om_rowCount m = 2 \<and> om_columnCount m = 3)
   \<and> (case ObjectsModel_init [bus_A, bus_B] bus_headers True [] True [''name''] [] of
        Inl e \<Rightarrow> False
      | Inr m \<Rightarrow> om_rowCount m = 3 \<and> om_columnCount m = 2)"
  using counts_match_collections [of no_datetime sample_frame False "- 1" 6 _ _ _ _ _
      "wt_add (WiresTable_init keep keep) wire_1" "[bus_A, bus_B]" bus_headers True "[]" False]
  by (simp add: counts_eval)

section \<open>Display of zero cells\<close>

lemma display_zero:
  "\<not> ne_zero num x \<Longrightarrow> display num f (cell_num x) = Inr (Some ''0'')"
  "\<not> ne_zero num re \<Longrightarrow> \<not> ne_zero num im \<Longrightarrow> display num f (cell_complex re im) = Inr (Some ''0'')"
  by (simp_all add: display_def)

lemma display_nonzero:
  "ne_zero num x \<Longrightarrow>
     display num f (cell_num x) = ebind (format_num num x f) (\<lambda>s. Inr (Some s))"
  "ne_zero num re \<or> ne_zero num im \<Longrightarrow>
     display num f (cell_complex re im) = ebind (format_complex num re im f) (\<lambda>s. Inr (Some s))"
  by (simp_all add: display_def)

text \<open>
  Claim C8: at a valid index and the display role, on PandasModel and on ResultsModel, a
  cell that is not a string and equals zero (a number \<open>x\<close> with \<open>x != 0\<close> false, or a
  complex whose real and imaginary parts both are so) is shown as the string \<open>0\<close>, and
  every other number is shown as \<open>__format__\<close> gives it with the model's format string
  (for a PandasModel, the string \<open>.\<close>, the decimals and \<open>f\<close>).
\<close>

theorem zero_cells_display_0:
  assumes "isValid idx"
  shows
  "(getitem2 (pd_data_c m) (row idx) (column idx) = Inr (cell_num x) \<longrightarrow>
      pd_data num m idx DisplayRole =
        (if ne_zero num x then ebind (format_num num x (pd_format_string m)) (\<lambda>s. Inr (Some s))
         else Inr (Some ''0'')))
   \<and> (getitem2 (pd_data_c m) (row idx) (column idx) = Inr (cell_complex re im) \<longrightarrow>
      pd_data num m idx DisplayRole =
        (if ne_zero num re \<or> ne_zero num im
         then ebind (format_complex num re im (pd_format_string m)) (\<lambda>s. Inr (Some s))
         else Inr (Some ''0'')))
   \<and> (getitem2 (data_c table) (row idx) (column idx) = Inr (cell_num x) \<longrightarrow>
      rm_data num table idx DisplayRole =
        (if ne_zero num x then ebind (format_num num x (format_string table)) (\<lambda>s. Inr (Some s))
         else Inr (Some ''0'')))
   \<and> (getitem2 (data_c table) (row idx) (column idx) = Inr (cell_complex re im) \<longrightarrow>
      rm_data num table idx DisplayRole =
        (if ne_zero num re \<or> ne_zero num im
         then ebind (format_complex num re im (format_string table)) (\<lambda>s. Inr (Some s))
         else Inr (Some ''0'')))
   \<and> (PandasModel_init is_dt df ed mi dec = Inr m \<longrightarrow>
      pd_format_string m = ''.'' @ str_int dec @ ''f'')"
  using assms
  by (auto simp: pd_data_def rm_data_def ebind_simps display_zero display_nonzero
      PandasModel_init_def ebind_Inr_iff)

lemmas display_eval =
  PandasModel_init_def pd_data_def rm_data_def display_def getitem2_def getitem_def py_index_def
  ebind_def isValid_def cell_at_def sample_frame_def sample_results_def int_numeric_def
  no_datetime_def str_int_def str_nat.simps

theorem zero_cells_display_0_witness:
  "(case PandasModel_init no_datetime sample_frame False (- 1) 6 of
      Inl e \<Rightarrow> False
    | Inr m \<Rightarrow>
        pd_data int_numeric m (cell_at 0 1) DisplayRole = Inr (Some ''0'') \<and>
        pd_data int_numeric m (cell_at 1 0) DisplayRole = Inr (Some ''0'') \<and>
        pd_data int_numeric m (cell_at 0 0) DisplayRole = Inr (Some ''1 as .6f'') \<and>
        pd_data int_numeric m (cell_at 1 1) DisplayRole = Inr (Some ''0+2j as .6f''))
   \<and> rm_data int_numeric sample_results (cell_at 0 1) DisplayRole = Inr (Some ''0'')
   \<and> rm_data int_numeric sample_results (cell_at 1 0) DisplayRole = Inr (Some ''0'')
   \<and> rm_data int_numeric sample_results (cell_at 1 2) DisplayRole = Inr (Some ''3 as .4f'')"
  using zero_cells_display_0 [of "cell_at 0 1" _ 0 int_numeric 0 0 sample_results]
  by (simp add: display_eval)

section \<open>MeasurementsModel\<close>

text \<open>
  Claim C10: on every MeasurementsModel instance \<open>rowCount()\<close> fails, and so does
  \<open>data()\<close> at any valid index (with its default role, the display role): the
  constructor stores the circuit and never assigns \<open>items\<close>, which both methods read,
  so both raise AttributeError.
\<close>

theorem MeasurementsModel_always_fails:
  "list_rowCount (MeasurementsModel_init circ) = Inl AttributeError
   \<and> (isValid idx \<longrightarrow> list_data (MeasurementsModel_init circ) idx DisplayRole = Inl AttributeError)"
  by (simp add: list_rowCount_def list_data_def MeasurementsModel_init_def lookup_def ebind_simps)

theorem MeasurementsModel_always_fails_witness:
  "list_rowCount (MeasurementsModel_init ''grid'') = Inl AttributeError
   \<and> list_data (MeasurementsModel_init ''grid'') (cell_at 0 0) DisplayRole = Inl AttributeError
   \<and> list_rowCount (EnumModel_init [[''a''], [''b'']] :: string py_object) = Inr 2"
  using MeasurementsModel_always_fails [of "''grid''" "cell_at 0 0"]
  by (simp add: isValid_def cell_at_def list_rowCount_def EnumModel_init_def lookup_def ebind_simps)

section \<open>Unique names on edit\<close>

lemma attr_taken_held:
  "list_all (\<lambda>obj. obj_attrs obj attr \<noteq> None) objs \<Longrightarrow>
   attr_taken objs attr v = Inr (list_ex (\<lambda>obj. obj_attrs obj attr = Some v) objs)"
  by (induction objs) (auto simp: lookup_def ebind_simps)

text \<open>
  Claim C5, as stated: on a model whose edited attribute is under the uniqueness check, a
  value not already taken is written to the addressed object. On the two buses with
  \<open>name\<close> both in \<open>check_unique\<close> and in \<open>non_editable_attributes\<close>, the name
  \<open>C\<close> is taken by no bus, and \<open>setData\<close> still writes nothing: the first bus keeps
  its name \<open>A\<close>.
\<close>

theorem unique_edit_not_written:
  "ObjectsModel_init [bus_A, bus_B] bus_headers True [''name''] False [''name''] [] = Inr locked_names
   \<and> attr_taken (objects locked_names) ''name'' ''C'' = Inr False
   \<and> om_setData no_branch_type locked_names (cell_at 0 0) ''C'' = (locked_names, None)
   \<and> obj_attrs (objects locked_names ! 0) ''name'' = Some ''A''"
  by (simp add: ObjectsModel_init_def bus_headers_def locked_names_def ebind_def
      om_setData_def cell_at_def getitem_def py_index_def lookup_def bus_A_def bus_B_def)

text \<open>
  Claim C5, amended: for every ObjectsModel whose edited attribute is listed in
  \<open>check_unique\<close> (every object having that attribute), \<open>setData\<close> with a value already
  held by some object of the collection rejects the edit and leaves every object unchanged;
  a value not already taken is written to the addressed object's attribute, as
  \<open>BranchType(value)\<close> when the attribute's type is BranchType, provided the attribute is
  not listed in \<open>non_editable_attributes\<close>; when it is listed there, nothing is written.
\<close>

theorem unique_names_on_edit:
  assumes "getitem (attributes m) (if transposed m then row idx else column idx) = Inr attr"
    and "getitem (attribute_types m) (if transposed m then row idx else column idx) = Inr t"
    and "attr \<in> set (check_unique m)"
    and "list_all (\<lambda>obj. obj_attrs obj attr \<noteq> None) (objects m)"
  shows
  "(list_ex (\<lambda>obj. obj_attrs obj attr = Some v) (objects m) \<longrightarrow>
      om_setData bt m idx v = (m, None))
   \<and> (\<not> list_ex (\<lambda>obj. obj_attrs obj attr = Some v) (objects m) \<and>
       attr \<in> set (non_editable_attributes m) \<longrightarrow>
      om_setData bt m idx v = (m, None))
   \<and> (\<not> list_ex (\<lambda>obj. obj_attrs obj attr = Some v) (objects m) \<and>
       attr \<notin> set (non_editable_attributes m) \<and> t \<noteq> t_BranchType \<and>
       py_index (length (objects m)) (if transposed m then column idx else row idx) = Some i \<longrightarrow>
      om_setData bt m idx v =
        (m\<lparr>objects := (objects m)[i := (objects m ! i)
             \<lparr>obj_attrs := (obj_attrs (objects m ! i))(attr \<mapsto> v)\<rparr>]\<rparr>, None))
   \<and> (\<not> list_ex (\<lambda>obj. obj_attrs obj attr = Some v) (objects m) \<and>
       attr \<notin> set (non_editable_attributes m) \<and> t = t_BranchType \<and> bt v = Inr b \<and>
       py_index (length (objects m)) (if transposed m then column idx else row idx) = Some i \<longrightarrow>
      map obj_attrs (objects (fst (om_setData bt m idx v))) =
        (map obj_attrs (objects m))[i := (obj_attrs (objects m ! i))(attr \<mapsto> b)])"
  using assms attr_taken_held [OF assms(4), of v]
  by (auto simp: om_setData_def Let_def set_object_def map_update split: option.splits)

lemmas objects_eval =
  unique_names_def locked_names_def cell_at_def getitem_def py_index_def bus_A_def bus_B_def

theorem unique_names_on_edit_witness:
  "om_setData no_branch_type unique_names (cell_at 1 0) ''A'' = (unique_names, None)
   \<and> om_setData no_branch_type unique_names (cell_at 1 0) ''C'' =
     (unique_names\<lparr>objects := (objects unique_names)[1 := (objects unique_names ! 1)
         \<lparr>obj_attrs := (obj_attrs (objects unique_names ! 1))(''name'' \<mapsto> ''C'')\<rparr>]\<rparr>, None)"
proof -
  have h1: "getitem (attributes unique_names)
      (if transposed unique_names then row (cell_at 1 0) else column (cell_at 1 0)) = Inr ''name''"
    by (simp add: objects_eval)
  have h2: "getitem (attribute_types unique_names)
      (if transposed unique_names then row (cell_at 1 0) else column (cell_at 1 0)) = Inr t_str"
    by (simp add: objects_eval)
  have h3: "''name'' \<in> set (check_unique unique_names)"
    by (simp add: objects_eval)
  have h4: "list_all (\<lambda>obj. obj_attrs obj ''name'' \<noteq> None) (objects unique_names)"
    by (simp add: objects_eval)
  have taken: "list_ex (\<lambda>obj. obj_attrs obj ''name'' = Some ''A'') (objects unique_names)"
    by (simp add: objects_eval)
  have free: "\<not> list_ex (\<lambda>obj. obj_attrs obj ''name'' = Some ''C'') (objects unique_names)"
    "''name'' \<notin> set (non_editable_attributes unique_names)" "t_str \<noteq> t_BranchType"
    "py_index (length (objects unique_names))
       (if transposed unique_names then column (cell_at 1 0) else row (cell_at 1 0)) = Some 1"
    by (simp_all add: objects_eval)
  from unique_names_on_edit [OF h1 h2 h3 h4, of "''A''" no_branch_type] taken
  have a: "om_setData no_branch_type unique_names (cell_at 1 0) ''A'' = (unique_names, None)"
    by blast
  from unique_names_on_edit [OF h1 h2 h3 h4, of "''C''" no_branch_type 1] free
  have c: "om_setData no_branch_type unique_names (cell_at 1 0) ''C'' =
     (unique_names\<lparr>objects := (objects unique_names)[1 := (objects unique_names ! 1)
         \<lparr>obj_attrs := (obj_attrs (objects unique_names ! 1))(''name'' \<mapsto> ''C'')\<rparr>]\<rparr>, None)"
    by blast
  from a c show ?thesis by simp
qed


text \<open>
  WiresTable guards its write with \<open>is_used\<close> only for an attribute called
  \<open>tower_name\<close>, which none of its columns is: a wire can be given the name of another.
\<close>

lemma wires_duplicate_name:
  "wt_is_used two_wires (py_str ''w1'') = Inr True
   \<and> wt_setData two_wires (cell_at 1 0) (py_str ''w1'') =
       Inr (two_wires\<lparr>wires := [wire_1, wire_2(''name'' \<mapsto> py_str ''w1'')]\<rparr>)"
  by (simp add: wt_setData_def two_wires_def wt_add_def WiresTable_init_def cell_at_def
      getitem_def py_index_def ebind_def lookup_def keep_def wt_store_def wt_is_used_def
      wire_1_def wire_2_def)


section \<open>TowerModel: the stored value\<close>










end
